theory Spec2Isabelle
  imports Complex_Main "HOL-Library.Word"
begin

section \<open>The three-component vector of \<^verbatim>\<open>vector3d.h\<close>\<close>

text \<open>
  \<^verbatim>\<open>template<typename Type> class Vector3D\<close> holds three private members
  \<^verbatim>\<open>m_x, m_y, m_z\<close> of the element type. The template parameter is the type variable
  \<open>'a\<close>; each definition asks of \<open>'a\<close> only the operations its C++ body uses.

  The arithmetic laws below are stated for a commutative ring with unit. Both kinds of
  integer element type are instances: \<open>int\<close> (arithmetic that never overflows) and
  \<open>'w word\<close> (a \<open>w\<close>-bit machine integer whose \<open>+\<close>, \<open>-\<close> and \<open>*\<close> wrap around modulo
  \<open>2 ^ w\<close>, which is what the unsigned types do by definition and what two's-complement
  hardware does for the signed ones; the C++ standard itself gives no meaning to signed
  overflow). Floating-point element types are not modelled.

  C++ does the arithmetic of an element type narrower than \<^verbatim>\<open>int\<close> in \<^verbatim>\<open>int\<close> (integer
  promotion). Where the result is stored back into a \<^verbatim>\<open>Vector3D<Type>\<close> the conversion
  reduces it modulo \<open>2 ^ w\<close>, which is again the arithmetic of \<open>'w word\<close>, so the
  vector-valued operators below are right for every width. \<^verbatim>\<open>module\<close>,
  \<^verbatim>\<open>scalarProduct\<close> and \<^verbatim>\<open>distance\<close> do not store back: their generic definitions are
  for element types at least as wide as \<^verbatim>\<open>int\<close>, and the narrow case has definitions of
  its own further down.
\<close>

record 'a Vector3D =
  m_x :: 'a
  m_y :: 'a
  m_z :: 'a

text \<open>\<^verbatim>\<open>Vector3D(Type x, Type y, Type z) : m_x(x), m_y(y), m_z(z) {}\<close>\<close>

definition Vector3D :: "'a \<Rightarrow> 'a \<Rightarrow> 'a \<Rightarrow> 'a Vector3D" where
  "Vector3D x y z = \<lparr>m_x = x, m_y = y, m_z = z\<rparr>"

text \<open>\<^verbatim>\<open>Vector3D() : m_x(0), m_y(0), m_z(0) {}\<close>\<close>

definition Vector3D_default :: "'a::zero Vector3D" where
  "Vector3D_default = \<lparr>m_x = 0, m_y = 0, m_z = 0\<rparr>"

text \<open>
  The getters \<^verbatim>\<open>x()\<close>, \<^verbatim>\<open>y()\<close>, \<^verbatim>\<open>z()\<close> (suffixed, so that \<open>x\<close>, \<open>y\<close>, \<open>z\<close> stay
  free for variables) and the setters, which take the object first.
\<close>

definition x_of :: "'a Vector3D \<Rightarrow> 'a" where
  "x_of A = m_x A"

definition y_of :: "'a Vector3D \<Rightarrow> 'a" where
  "y_of A = m_y A"

definition z_of :: "'a Vector3D \<Rightarrow> 'a" where
  "z_of A = m_z A"

definition setX :: "'a Vector3D \<Rightarrow> 'a \<Rightarrow> 'a Vector3D" where
  "setX A x = A\<lparr>m_x := x\<rparr>"

definition setY :: "'a Vector3D \<Rightarrow> 'a \<Rightarrow> 'a Vector3D" where
  "setY A y = A\<lparr>m_y := y\<rparr>"

definition setZ :: "'a Vector3D \<Rightarrow> 'a \<Rightarrow> 'a Vector3D" where
  "setZ A z = A\<lparr>m_z := z\<rparr>"

text \<open>
  \<^verbatim>\<open>double module() const {return sqrt(m_x * m_x + m_y * m_y + m_z * m_z);}\<close>

  The sum of squares is computed in the element type. \<^verbatim>\<open>sqrt\<close> belongs to the C
  library: it converts its argument to \<^verbatim>\<open>double\<close> and returns a \<^verbatim>\<open>double\<close>. It is the
  parameter \<open>sqrt_T\<close>, from the element type to whatever type \<open>'d\<close> stands for
  \<^verbatim>\<open>double\<close>.
\<close>

definition module :: "('a \<Rightarrow> 'd) \<Rightarrow> 'a::{plus,times} Vector3D \<Rightarrow> 'd" where
  "module sqrt_T A = sqrt_T (m_x A * m_x A + m_y A * m_y A + m_z A * m_z A)"

subsection \<open>Free operators\<close>

definition operator_plus :: "'a::plus Vector3D \<Rightarrow> 'a Vector3D \<Rightarrow> 'a Vector3D" where
  "operator_plus A B = Vector3D (x_of A + x_of B) (y_of A + y_of B) (z_of A + z_of B)"

definition operator_minus :: "'a::minus Vector3D \<Rightarrow> 'a Vector3D \<Rightarrow> 'a Vector3D" where
  "operator_minus A B = Vector3D (x_of A - x_of B) (y_of A - y_of B) (z_of A - z_of B)"

text \<open>
  The two scalar products, \<^verbatim>\<open>operator*(const Type s, const Vector3D<Type>& A)\<close> and
  \<^verbatim>\<open>operator*(const Vector3D<Type>& A, const Type s)\<close>. Both bodies multiply with the
  scalar on the left.
\<close>

definition operator_times_sv :: "'a::times \<Rightarrow> 'a Vector3D \<Rightarrow> 'a Vector3D" where
  "operator_times_sv s A = Vector3D (s * x_of A) (s * y_of A) (s * z_of A)"

definition operator_times_vs :: "'a::times Vector3D \<Rightarrow> 'a \<Rightarrow> 'a Vector3D" where
  "operator_times_vs A s = Vector3D (s * x_of A) (s * y_of A) (s * z_of A)"

text \<open>\<^verbatim>\<open>operator*(const Vector3D<Type>& A, const Vector3D<Type>& B)\<close>, component by component.\<close>

definition operator_times_vv :: "'a::times Vector3D \<Rightarrow> 'a Vector3D \<Rightarrow> 'a Vector3D" where
  "operator_times_vv A B = Vector3D (x_of A * x_of B) (y_of A * y_of B) (z_of A * z_of B)"

text \<open>
  \<^verbatim>\<open>operator==\<close>. The element type's \<^verbatim>\<open>==\<close> is HOL equality, which is right for the
  integer types.
\<close>

definition operator_eq :: "'a Vector3D \<Rightarrow> 'a Vector3D \<Rightarrow> bool" where
  "operator_eq A B = (x_of A = x_of B \<and> y_of A = y_of B \<and> z_of A = z_of B)"


definition crossProduct :: "'a::{minus,times} Vector3D \<Rightarrow> 'a Vector3D \<Rightarrow> 'a Vector3D" where
  "crossProduct A B =
     Vector3D (y_of A * z_of B - z_of A * y_of B)
              (z_of A * x_of B - x_of A * z_of B)
              (x_of A * y_of B - y_of A * x_of B)"

text \<open>
  \<^verbatim>\<open>distance\<close> does not call \<^verbatim>\<open>module\<close> or \<^verbatim>\<open>operator-\<close>: it writes the three
  differences out, twice each, inside the same \<^verbatim>\<open>sqrt\<close>.
\<close>

definition distance :: "('a \<Rightarrow> 'd) \<Rightarrow> 'a::{plus,minus,times} Vector3D \<Rightarrow> 'a Vector3D \<Rightarrow> 'd" where
  "distance sqrt_T A B =
     sqrt_T ((x_of A - x_of B) * (x_of A - x_of B) +
             (y_of A - y_of B) * (y_of A - y_of B) +
             (z_of A - z_of B) * (z_of A - z_of B))"

subsection \<open>An element type narrower than \<^verbatim>\<open>int\<close>\<close>

text \<open>
  \<^verbatim>\<open>module\<close>, \<^verbatim>\<open>scalarProduct\<close> and \<^verbatim>\<open>distance\<close> at \<^verbatim>\<open>Type = unsigned char\<close>, an 8-bit
  word. Each getter returns an \<^verbatim>\<open>unsigned char\<close>, which \<^verbatim>\<open>-\<close>, \<^verbatim>\<open>*\<close> and \<^verbatim>\<open>+\<close> first
  convert to \<^verbatim>\<open>int\<close> (\<open>uint\<close>); the \<^verbatim>\<open>int\<close> result goes to \<^verbatim>\<open>sqrt\<close> or to the conversion to
  \<^verbatim>\<open>double\<close> as it is. The values stay far below \<open>2 ^ 31\<close>, so the \<^verbatim>\<open>int\<close> of C++ is
  HOL's \<open>int\<close> here. \<^verbatim>\<open>operator-\<close> and \<^verbatim>\<open>operator*\<close> at this type are \<open>operator_minus\<close>
  and \<open>operator_times_vv\<close> on \<open>8 word\<close>.
\<close>

definition module_uchar :: "(int \<Rightarrow> 'd) \<Rightarrow> 8 word Vector3D \<Rightarrow> 'd" where
  "module_uchar sqrt_i A =
     sqrt_i (uint (m_x A) * uint (m_x A) + uint (m_y A) * uint (m_y A)
             + uint (m_z A) * uint (m_z A))"

definition scalarProduct_uchar ::
  "(int \<Rightarrow> 'd) \<Rightarrow> 8 word Vector3D \<Rightarrow> 8 word Vector3D \<Rightarrow> 'd" where
  "scalarProduct_uchar to_double A B =
     (let C = operator_times_vv A B
      in to_double (uint (x_of C) + uint (y_of C) + uint (z_of C)))"

definition distance_uchar :: "(int \<Rightarrow> 'd) \<Rightarrow> 8 word Vector3D \<Rightarrow> 8 word Vector3D \<Rightarrow> 'd" where
  "distance_uchar sqrt_i A B =
     sqrt_i ((uint (x_of A) - uint (x_of B)) * (uint (x_of A) - uint (x_of B)) +
             (uint (y_of A) - uint (y_of B)) * (uint (y_of A) - uint (y_of B)) +
             (uint (z_of A) - uint (z_of B)) * (uint (z_of A) - uint (z_of B)))"

text \<open>
  \<^verbatim>\<open>sqrt\<close> on an \<^verbatim>\<open>int\<close> argument, without rounding: the real square root. The library's
  \<^verbatim>\<open>sqrt\<close> is correctly rounded, so it returns this value whenever a \<^verbatim>\<open>double\<close> can hold
  it, as for the square of a small integer.
\<close>

definition sqrt_int :: "int \<Rightarrow> real" where
  "sqrt_int i = sqrt (real_of_int i)"




section \<open>The stream operators\<close>

subsection \<open>What the standard library does\<close>

text \<open>
  The stream operators of \<^verbatim>\<open>vector3d.h\<close> are templates: what \<^verbatim>\<open>os << A.x()\<close> and
  \<^verbatim>\<open>is >> x\<close> do to one element is decided by the C++ standard library for the element
  type. The vector operators below therefore take the element's inserter and extractor
  as parameters. They are instantiated with the library's behaviour for an integer of
  \<open>w\<close> bits held in a \<open>'w word\<close>, read as signed (\<open>sint\<close>) or as unsigned (\<open>uint\<close>),
  written down here from the C++11 standard. The 8-bit integer types are the character
  types (\<^verbatim>\<open>signed char\<close>, \<^verbatim>\<open>unsigned char\<close>): the library writes and reads them as one
  character. The wider ones are written and read as decimal numbers (\<^verbatim>\<open>num_put\<close> and
  \<^verbatim>\<open>num_get\<close> with default flags in the classic locale: no padding, no grouping).

  An output stream is the text written so far. An input stream is the text not yet
  read, the two state bits a formatted read can set, and the exception mask: which of
  the two bits, once set, makes the stream throw \<^verbatim>\<open>std::ios_base::failure\<close>
  (\<^verbatim>\<open>is.exceptions(...)\<close>; a new stream has an empty mask).
\<close>

type_synonym ostream = string

record istream =
  buf :: string
  failbit :: bool
  eofbit :: bool
  exc_fail :: bool
  exc_eof :: bool

text \<open>A fresh stream over a text, as \<^verbatim>\<open>std::istringstream\<close> gives.\<close>

definition istream_of :: "string \<Rightarrow> istream" where
  "istream_of s =
     \<lparr>buf = s, failbit = False, eofbit = False, exc_fail = False, exc_eof = False\<rparr>"

text \<open>
  Setting a state bit that the exception mask names throws. An extraction has set
  bits exactly when it leaves the stream not \<^verbatim>\<open>good()\<close>, so it throws exactly when
  the stream it leaves has a bit in common with the mask.
\<close>

definition raises :: "istream \<Rightarrow> bool" where
  "raises is = ((failbit is \<and> exc_fail is) \<or> (eofbit is \<and> exc_eof is))"

text \<open>\<^verbatim>\<open>os << ", "\<close> appends the literal.\<close>

definition put_str :: "ostream \<Rightarrow> string \<Rightarrow> ostream" where
  "put_str os s = os @ s"

text \<open>The decimal digits of a natural number, most significant first; at least one.\<close>

definition digit_char :: "nat \<Rightarrow> char" where
  "digit_char d = ''0123456789'' ! d"

fun digits :: "nat \<Rightarrow> string" where
  "digits n = (if n < 10 then [digit_char n] else digits (n div 10) @ [digit_char (n mod 10)])"

declare digits.simps [simp del]

text \<open>\<^verbatim>\<open>%d\<close>: a minus sign for a negative value, no sign otherwise.\<close>

definition show_int :: "int \<Rightarrow> string" where
  "show_int i = (if i < 0 then CHR ''-'' # digits (nat (- i)) else digits (nat i))"

text \<open>
  White space of the classic locale: space, tab, line feed, vertical tab, form feed,
  carriage return.
\<close>

definition isspace :: "char \<Rightarrow> bool" where
  "isspace c = (c \<in> set [CHR '' '', CHR 0x09, CHR 0x0A, CHR 0x0B, CHR 0x0C, CHR 0x0D])"

definition isdigit :: "char \<Rightarrow> bool" where
  "isdigit c = (c \<in> set ''0123456789'')"

definition digit_val :: "char \<Rightarrow> nat" where
  "digit_val c = of_char c - of_char CHR ''0''"

definition dec :: "string \<Rightarrow> nat" where
  "dec ds = foldl (\<lambda>acc c. 10 * acc + digit_val c) 0 ds"

text \<open>
  The character types. \<^verbatim>\<open>os << c\<close> writes the one character whose code is the value,
  whatever it is. \<^verbatim>\<open>is >> c\<close> skips white space (\<open>ws\<close> is the white space of the stream's
  locale) and takes the next character as the value; a stream that is not \<^verbatim>\<open>good()\<close>
  gets \<^verbatim>\<open>failbit\<close>, and a text that ends in the white space gets \<^verbatim>\<open>failbit\<close> and
  \<^verbatim>\<open>eofbit\<close>; nothing is stored in either case.
\<close>

definition put_char :: "ostream \<Rightarrow> 'w::len word \<Rightarrow> ostream" where
  "put_char os v = os @ [char_of (unat v)]"

definition get_char :: "(char \<Rightarrow> bool) \<Rightarrow> istream \<Rightarrow> 'w::len word \<Rightarrow> istream \<times> 'w word" where
  "get_char ws is v =
     (if failbit is \<or> eofbit is then (is\<lparr>failbit := True\<rparr>, v)
      else
        let s = dropWhile ws (buf is) in
        if s = [] then (is\<lparr>buf := [], failbit := True, eofbit := True\<rparr>, v)
        else (is\<lparr>buf := tl s\<rparr>, of_char (hd s)))"

text \<open>The least and the greatest value of a signed integer of \<open>LENGTH('w)\<close> bits.\<close>

definition int_min :: "'w::len itself \<Rightarrow> int" where
  "int_min w = - (2 ^ (LENGTH('w) - 1))"

definition int_max :: "'w::len itself \<Rightarrow> int" where
  "int_max w = 2 ^ (LENGTH('w) - 1) - 1"

text \<open>
  A signed integer read as a decimal number.
  \<^item> A stream that is not \<^verbatim>\<open>good()\<close> gets \<^verbatim>\<open>failbit\<close> and nothing is read or stored.
  \<^item> Leading white space is skipped; if the text ends there, \<^verbatim>\<open>failbit\<close> and
    \<^verbatim>\<open>eofbit\<close> are set and nothing is stored.
  \<^item> An optional sign and the longest run of digits are consumed; \<^verbatim>\<open>eofbit\<close> is set
    if that reaches the end of the text.
  \<^item> No digit: \<^verbatim>\<open>failbit\<close>, and 0 is stored. A value outside the type: \<^verbatim>\<open>failbit\<close>,
    and the nearest bound is stored. Otherwise the value is stored.
\<close>

definition get_decimal_int ::
  "(char \<Rightarrow> bool) \<Rightarrow> istream \<Rightarrow> 'w::len word \<Rightarrow> istream \<times> 'w word" where
  "get_decimal_int ws is v =
     (if failbit is \<or> eofbit is then (is\<lparr>failbit := True\<rparr>, v)
      else
        let s = dropWhile ws (buf is) in
        if s = [] then (is\<lparr>buf := [], failbit := True, eofbit := True\<rparr>, v)
        else
          let neg = (hd s = CHR ''-'');
              s1 = (if hd s = CHR ''-'' \<or> hd s = CHR ''+'' then tl s else s);
              ds = takeWhile isdigit s1;
              rest = dropWhile isdigit s1;
              n = (if neg then - int (dec ds) else int (dec ds))
          in
            if ds = [] then (is\<lparr>buf := rest, failbit := True, eofbit := (rest = [])\<rparr>, 0)
            else if n < int_min TYPE('w) then
              (is\<lparr>buf := rest, failbit := True, eofbit := (rest = [])\<rparr>,
               word_of_int (int_min TYPE('w)))
            else if int_max TYPE('w) < n then
              (is\<lparr>buf := rest, failbit := True, eofbit := (rest = [])\<rparr>,
               word_of_int (int_max TYPE('w)))
            else (is\<lparr>buf := rest, eofbit := (rest = [])\<rparr>, word_of_int n))"

text \<open>
  An unsigned integer read as a decimal number. The scan is the same; it fails on a
  magnitude greater than the greatest value, and stores the greatest value then; a
  minus sign in front of a smaller magnitude negates it modulo \<open>2 ^ w\<close>, as the common
  implementations do.
\<close>

definition uint_max :: "'w::len itself \<Rightarrow> int" where
  "uint_max w = 2 ^ LENGTH('w) - 1"

definition get_decimal_uint ::
  "(char \<Rightarrow> bool) \<Rightarrow> istream \<Rightarrow> 'w::len word \<Rightarrow> istream \<times> 'w word" where
  "get_decimal_uint ws is v =
     (if failbit is \<or> eofbit is then (is\<lparr>failbit := True\<rparr>, v)
      else
        let s = dropWhile ws (buf is) in
        if s = [] then (is\<lparr>buf := [], failbit := True, eofbit := True\<rparr>, v)
        else
          let neg = (hd s = CHR ''-'');
              s1 = (if hd s = CHR ''-'' \<or> hd s = CHR ''+'' then tl s else s);
              ds = takeWhile isdigit s1;
              rest = dropWhile isdigit s1;
              n = (if neg then - int (dec ds) else int (dec ds))
          in
            if ds = [] then (is\<lparr>buf := rest, failbit := True, eofbit := (rest = [])\<rparr>, 0)
            else if uint_max TYPE('w) < int (dec ds) then
              (is\<lparr>buf := rest, failbit := True, eofbit := (rest = [])\<rparr>,
               word_of_int (uint_max TYPE('w)))
            else (is\<lparr>buf := rest, eofbit := (rest = [])\<rparr>, word_of_int n))"

text \<open>
  \<^verbatim>\<open>os << v\<close> and \<^verbatim>\<open>is >> v\<close> for a signed and for an unsigned integer element type of
  \<open>LENGTH('w)\<close> bits: the overload for a character type at 8 bits, the one for a number
  otherwise.
\<close>

definition put_int :: "ostream \<Rightarrow> 'w::len word \<Rightarrow> ostream" where
  "put_int os v = (if LENGTH('w) = 8 then put_char os v else os @ show_int (sint v))"

definition get_int :: "(char \<Rightarrow> bool) \<Rightarrow> istream \<Rightarrow> 'w::len word \<Rightarrow> istream \<times> 'w word" where
  "get_int ws is v =
     (if LENGTH('w) = 8 then get_char ws is v else get_decimal_int ws is v)"

definition put_uint :: "ostream \<Rightarrow> 'w::len word \<Rightarrow> ostream" where
  "put_uint os v = (if LENGTH('w) = 8 then put_char os v else os @ show_int (uint v))"

definition get_uint :: "(char \<Rightarrow> bool) \<Rightarrow> istream \<Rightarrow> 'w::len word \<Rightarrow> istream \<times> 'w word" where
  "get_uint ws is v =
     (if LENGTH('w) = 8 then get_char ws is v else get_decimal_uint ws is v)"

text \<open>
  The two ways of getting the commas of the output format out of the reader's way:
  deleting them from the text, or a locale that counts the comma as white space.
\<close>

definition strip_commas :: "string \<Rightarrow> string" where
  "strip_commas s = filter (\<lambda>c. c \<noteq> CHR '','') s"

definition isspace_or_comma :: "char \<Rightarrow> bool" where
  "isspace_or_comma c = (isspace c \<or> c = CHR '','')"

subsection \<open>The operators of the source\<close>

text \<open>
  \<^verbatim>\<open>
  os << A.x() << ", " << A.y() << ", " << A.z();
  return os;
  \<close>
\<close>

definition operator_out :: "(ostream \<Rightarrow> 'a \<Rightarrow> ostream) \<Rightarrow> ostream \<Rightarrow> 'a Vector3D \<Rightarrow> ostream" where
  "operator_out put os A =
     (let os1 = put os (x_of A);
          os2 = put_str os1 '', '';
          os3 = put os2 (y_of A);
          os4 = put_str os3 '', '';
          os5 = put os4 (z_of A)
      in os5)"

text \<open>
  \<^verbatim>\<open>
  Type x,y,z;
  is >> x >> y >> z;
  A.setX(x);
  A.setY(y);
  A.setZ(z);
  return is;
  \<close>
  The locals are declared without a value: what they hold before the extraction is the
  arguments \<open>x0\<close>, \<open>y0\<close>, \<open>z0\<close>. The stream and the vector are passed by reference, so
  both outcomes carry them as the call leaves them: \<open>Returns\<close> when the body runs to its
  end, \<open>Throws\<close> when one of the three extractions throws. An extraction that throws
  ends the chain and the function at once, before any setter has run.
\<close>

datatype 'a outcome =
  Returns (stream_after: istream) (vector_after: "'a Vector3D")
  | Throws (stream_after: istream) (vector_after: "'a Vector3D")

definition operator_in ::
  "(istream \<Rightarrow> 'a \<Rightarrow> istream \<times> 'a) \<Rightarrow> istream \<Rightarrow> 'a Vector3D \<Rightarrow> 'a \<Rightarrow> 'a \<Rightarrow> 'a
     \<Rightarrow> 'a outcome" where
  "operator_in get is A x0 y0 z0 =
     (let (is1, x) = get is x0 in
      if raises is1 then Throws is1 A
      else
        let (is2, y) = get is1 y0 in
        if raises is2 then Throws is2 A
        else
          let (is3, z) = get is2 z0 in
          if raises is3 then Throws is3 A
          else
            let A1 = setX A x;
                A2 = setY A1 y;
                A3 = setZ A2 z
            in Returns is3 A3)"

section \<open>Basic facts\<close>

lemma x_of_Vector3D [simp]: "x_of (Vector3D a b c) = a"
  by (simp add: x_of_def Vector3D_def)

lemma y_of_Vector3D [simp]: "y_of (Vector3D a b c) = b"
  by (simp add: y_of_def Vector3D_def)

lemma z_of_Vector3D [simp]: "z_of (Vector3D a b c) = c"
  by (simp add: z_of_def Vector3D_def)

lemma Vector3D_eq_iff [simp]:
  "Vector3D a b c = Vector3D a' b' c' \<longleftrightarrow> a = a' \<and> b = b' \<and> c = c'"
  by (simp add: Vector3D_def)

lemma Vector3D_getters: "Vector3D (x_of A) (y_of A) (z_of A) = A"
  by (simp add: Vector3D_def x_of_def y_of_def z_of_def)

lemma operator_eq_iff: "operator_eq A B \<longleftrightarrow> A = B"
proof
  assume "operator_eq A B"
  then have "Vector3D (x_of A) (y_of A) (z_of A) = Vector3D (x_of B) (y_of B) (z_of B)"
    by (simp add: operator_eq_def)
  then show "A = B"
    by (simp only: Vector3D_getters)
next
  assume "A = B"
  then show "operator_eq A B"
    by (simp add: operator_eq_def)
qed

text \<open>The operators compute: a 32-bit sum that wraps, and a cross product of integers.\<close>

lemma operator_plus_wraps_example:
  "operator_plus (Vector3D (4294967295 :: 32 word) 2 3) (Vector3D 1 1 1) = Vector3D 0 3 4"
  by (simp add: operator_plus_def)

lemma crossProduct_example:
  "crossProduct (Vector3D (1::int) 2 3) (Vector3D 4 5 6) = Vector3D (- 3) 6 (- 3)"
  by (simp add: crossProduct_def)

lemma operator_minus_wraps_example:
  "operator_minus (Vector3D (0 :: 32 word) 5 7) (Vector3D 1 2 3) = Vector3D 4294967295 3 4
   \<and> operator_plus (Vector3D (4294967295 :: 32 word) 3 4) (Vector3D 1 2 3) = Vector3D 0 5 7"
  by (simp add: operator_minus_def operator_plus_def)

subsection \<open>The narrow element type\<close>

lemma sqrt_int_square: "0 \<le> k \<Longrightarrow> sqrt_int (k * k) = real_of_int k"
  by (simp add: sqrt_int_def)

lemma uchar_square_bound:
  fixes a :: "8 word"
  shows "0 \<le> uint a * uint a" and "uint a * uint a \<le> 65025"
proof -
  have "0 \<le> uint a" "uint a \<le> 255"
    using uint_lt2p [of a] by simp_all
  then show "0 \<le> uint a * uint a" by simp
  from \<open>0 \<le> uint a\<close> \<open>uint a \<le> 255\<close> have "uint a * uint a \<le> 255 * 255"
    by (intro mult_mono) simp_all
  then show "uint a * uint a \<le> 65025" by simp
qed

text \<open>The sum of squares that \<open>module_uchar\<close> hands to \<^verbatim>\<open>sqrt\<close> fits a 32-bit \<^verbatim>\<open>int\<close>.\<close>

lemma module_uchar_fits_int:
  "0 \<le> module_uchar (\<lambda>i. i) A \<and> module_uchar (\<lambda>i. i) A < 2 ^ 31"
  using uchar_square_bound [of "m_x A"] uchar_square_bound [of "m_y A"]
    uchar_square_bound [of "m_z A"]
  by (simp add: module_uchar_def)

lemma uchar_diff_square_bound:
  fixes a b :: "8 word"
  shows "0 \<le> (uint a - uint b) * (uint a - uint b)"
    and "(uint a - uint b) * (uint a - uint b) \<le> 65025"
proof -
  have "0 \<le> uint a" "uint a < 256" "0 \<le> uint b" "uint b < 256"
    using uint_lt2p [of a] uint_lt2p [of b] by simp_all
  then have r: "\<bar>uint a - uint b\<bar> \<le> 255"
    by linarith
  show "0 \<le> (uint a - uint b) * (uint a - uint b)"
    by simp
  have "(uint a - uint b) * (uint a - uint b) = \<bar>uint a - uint b\<bar> * \<bar>uint a - uint b\<bar>"
    by simp
  also from r have "\<dots> \<le> 255 * 255"
    by (intro mult_mono) simp_all
  finally show "(uint a - uint b) * (uint a - uint b) \<le> 65025"
    by simp
qed

text \<open>So does the sum of squared differences inside \<open>distance_uchar\<close>.\<close>

lemma distance_uchar_fits_int:
  "0 \<le> distance_uchar (\<lambda>i. i) A B \<and> distance_uchar (\<lambda>i. i) A B < 2 ^ 31"
  using uchar_diff_square_bound [of "x_of A" "x_of B"]
    uchar_diff_square_bound [of "y_of A" "y_of B"]
    uchar_diff_square_bound [of "z_of A" "z_of B"]
  by (simp add: distance_uchar_def)



lemma scalarProduct_uchar_example:
  "scalarProduct_uchar (\<lambda>i. i) (Vector3D 15 15 15) (Vector3D 15 15 15) = 675"
  by (simp add: scalarProduct_uchar_def operator_times_vv_def)


section \<open>The decimal text of an integer, read back\<close>

lemma digit_cases:
  "d < 10 \<Longrightarrow> d = 0 \<or> d = 1 \<or> d = 2 \<or> d = 3 \<or> d = 4 \<or> d = 5 \<or> d = 6 \<or> d = 7 \<or> d = 8 \<or> d = (9::nat)"
  by arith

lemma digit_val_digit_char: "d < 10 \<Longrightarrow> digit_val (digit_char d) = d"
  using digit_cases [of d] by (auto simp: digit_val_def digit_char_def)

lemma isdigit_digit_char: "d < 10 \<Longrightarrow> isdigit (digit_char d)"
  using digit_cases [of d] by (auto simp: isdigit_def digit_char_def)

lemma isdigit_not_comma: "isdigit c \<Longrightarrow> c \<noteq> CHR '',''"
  by (auto simp: isdigit_def)

lemma isdigit_not_sign: "isdigit c \<Longrightarrow> c \<noteq> CHR ''-'' \<and> c \<noteq> CHR ''+''"
  by (auto simp: isdigit_def)

lemma digits_nonempty: "digits n \<noteq> []"
  by (subst digits.simps) simp

lemma digits_all_isdigit: "c \<in> set (digits n) \<Longrightarrow> isdigit c"
proof (induction n arbitrary: c rule: digits.induct)
  case (1 n)
  show ?case
  proof (cases "n < 10")
    case True
    with "1.prems" show ?thesis
      by (simp add: digits.simps [of n] isdigit_digit_char)
  next
    case False
    with "1.prems" have "c \<in> set (digits (n div 10)) \<or> c = digit_char (n mod 10)"
      by (auto simp: digits.simps [of n])
    then show ?thesis
    proof
      assume "c \<in> set (digits (n div 10))"
      with False "1.IH" show ?thesis by simp
    next
      assume "c = digit_char (n mod 10)"
      then show ?thesis by (simp add: isdigit_digit_char)
    qed
  qed
qed

lemma dec_snoc: "dec (ds @ [c]) = 10 * dec ds + digit_val c"
  by (simp add: dec_def)

lemma dec_digits: "dec (digits n) = n"
proof (induction n rule: digits.induct)
  case (1 n)
  show ?case
  proof (cases "n < 10")
    case True
    then show ?thesis
      by (simp add: digits.simps [of n] dec_def digit_val_digit_char)
  next
    case False
    with "1.IH" have "dec (digits (n div 10)) = n div 10" by simp
    with False show ?thesis
      by (simp add: digits.simps [of n] dec_snoc digit_val_digit_char)
  qed
qed

lemma takeWhile_digits:
  assumes "rest = [] \<or> \<not> isdigit (hd rest)"
  shows "takeWhile isdigit (digits n @ rest) = digits n"
    and "dropWhile isdigit (digits n @ rest) = rest"
proof -
  have all: "\<forall>c\<in>set (digits n). isdigit c"
    by (simp add: digits_all_isdigit)
  from assms have t: "takeWhile isdigit rest = []" and d: "dropWhile isdigit rest = rest"
    by (cases rest; auto)+
  from all t show "takeWhile isdigit (digits n @ rest) = digits n"
    by simp
  from all d show "dropWhile isdigit (digits n @ rest) = rest"
    by simp
qed

lemma hd_digits_isdigit: "isdigit (hd (digits n))"
  using digits_nonempty [of n] digits_all_isdigit [of "hd (digits n)" n] by simp

lemma show_int_nonempty: "show_int i \<noteq> []"
  by (simp add: show_int_def digits_nonempty)

lemma hd_show_int: "hd (show_int i) = CHR ''-'' \<or> isdigit (hd (show_int i))"
  by (simp add: show_int_def hd_digits_isdigit)

lemma hd_show_int_not_space: "\<not> isspace (hd (show_int i))" "\<not> isspace_or_comma (hd (show_int i))"
  using hd_show_int [of i] by (auto simp: isdigit_def isspace_def isspace_or_comma_def)

lemma strip_commas_show_int: "strip_commas (show_int i) = show_int i"
proof -
  have "\<forall>c\<in>set (show_int i). c \<noteq> CHR '',''"
    by (auto simp: show_int_def dest: digits_all_isdigit isdigit_not_comma)
  then show ?thesis
    by (simp add: strip_commas_def)
qed

lemma sint_in_range:
  fixes v :: "'w::len word"
  shows "\<not> sint v < int_min TYPE('w)" and "\<not> int_max TYPE('w) < sint v"
  using sint_ge [of v] sint_lt [of v] by (simp_all add: int_min_def int_max_def)



text \<open>One token: the text of a value, then something that is not a digit.\<close>

lemma get_decimal_int_minus_digits:
  fixes v0 :: "'w::len word"
  assumes skip: "dropWhile ws b = CHR ''-'' # digits m @ rest"
    and rest: "rest = [] \<or> \<not> isdigit (hd rest)"
    and lo: "\<not> - int m < int_min TYPE('w)" and hi: "\<not> int_max TYPE('w) < - int m"
  shows "get_decimal_int ws (istream_of b) v0
         = ((istream_of rest)\<lparr>eofbit := (rest = [])\<rparr>, word_of_int (- int m))"
  using lo hi
  by (simp add: get_decimal_int_def istream_of_def skip takeWhile_digits [OF rest]
      digits_nonempty dec_digits Let_def)

lemma get_decimal_int_plain_digits:
  fixes v0 :: "'w::len word"
  assumes skip: "dropWhile ws b = digits m @ rest"
    and rest: "rest = [] \<or> \<not> isdigit (hd rest)"
    and lo: "\<not> int m < int_min TYPE('w)" and hi: "\<not> int_max TYPE('w) < int m"
  shows "get_decimal_int ws (istream_of b) v0
         = ((istream_of rest)\<lparr>eofbit := (rest = [])\<rparr>, word_of_int (int m))"
proof -
  from hd_digits_isdigit [of m]
  have nosign: "hd (digits m) \<noteq> CHR ''-''" "hd (digits m) \<noteq> CHR ''+''"
    by (auto dest: isdigit_not_sign)
  have hdapp: "hd (digits m @ rest) = hd (digits m)"
    by (simp add: digits_nonempty)
  show ?thesis
    using lo hi
    by (simp add: get_decimal_int_def istream_of_def skip takeWhile_digits [OF rest]
        digits_nonempty dec_digits Let_def hdapp nosign)
qed

lemma get_decimal_int_show_int:
  fixes v v0 :: "'w::len word"
  assumes pre: "\<forall>c\<in>set pre. ws c"
    and hd: "\<not> ws (hd (show_int (sint v)))"
    and rest: "rest = [] \<or> \<not> isdigit (hd rest)"
  shows "get_decimal_int ws (istream_of (pre @ show_int (sint v) @ rest)) v0
         = ((istream_of rest)\<lparr>eofbit := (rest = [])\<rparr>, v)"
proof -
  let ?t = "show_int (sint v)"
  have ne: "?t \<noteq> []" by (rule show_int_nonempty)
  from hd ne have "dropWhile ws (?t @ rest) = ?t @ rest"
    by (cases ?t) auto
  with pre have skip: "dropWhile ws (pre @ ?t @ rest) = ?t @ rest"
    by simp
  show ?thesis
  proof (cases "sint v < 0")
    case True
    define m where "m = nat (- sint v)"
    with True have m: "- int m = sint v" by simp
    from True have "?t = CHR ''-'' # digits m"
      by (simp add: show_int_def m_def)
    with skip have "dropWhile ws (pre @ ?t @ rest) = CHR ''-'' # digits m @ rest"
      by simp
    from get_decimal_int_minus_digits [OF this rest, where 'w = 'w, of v0] sint_in_range [of v]
    show ?thesis by (simp add: m)
  next
    case False
    define m where "m = nat (sint v)"
    with False have m: "int m = sint v" by simp
    from False have "?t = digits m"
      by (simp add: show_int_def m_def)
    with skip have "dropWhile ws (pre @ ?t @ rest) = digits m @ rest"
      by simp
    from get_decimal_int_plain_digits [OF this rest, where 'w = 'w, of v0] sint_in_range [of v]
    show ?thesis by (simp add: m)
  qed
qed

lemma get_decimal_uint_plain_digits:
  fixes v0 :: "'w::len word"
  assumes skip: "dropWhile ws b = digits m @ rest"
    and rest: "rest = [] \<or> \<not> isdigit (hd rest)"
    and hi: "\<not> uint_max TYPE('w) < int m"
  shows "get_decimal_uint ws (istream_of b) v0
         = ((istream_of rest)\<lparr>eofbit := (rest = [])\<rparr>, word_of_int (int m))"
proof -
  from hd_digits_isdigit [of m]
  have nosign: "hd (digits m) \<noteq> CHR ''-''" "hd (digits m) \<noteq> CHR ''+''"
    by (auto dest: isdigit_not_sign)
  have hdapp: "hd (digits m @ rest) = hd (digits m)"
    by (simp add: digits_nonempty)
  show ?thesis
    using hi
    by (simp add: get_decimal_uint_def istream_of_def skip takeWhile_digits [OF rest]
        digits_nonempty dec_digits Let_def hdapp nosign)
qed

lemma get_decimal_uint_show_int:
  fixes v v0 :: "'w::len word"
  assumes pre: "\<forall>c\<in>set pre. ws c"
    and hd: "\<not> ws (hd (show_int (uint v)))"
    and rest: "rest = [] \<or> \<not> isdigit (hd rest)"
  shows "get_decimal_uint ws (istream_of (pre @ show_int (uint v) @ rest)) v0
         = ((istream_of rest)\<lparr>eofbit := (rest = [])\<rparr>, v)"
proof -
  define m where "m = nat (uint v)"
  have m: "int m = uint v" by (simp add: m_def)
  have t: "show_int (uint v) = digits m"
    by (simp add: show_int_def m_def)
  have ne: "digits m \<noteq> []" by (rule digits_nonempty)
  from hd ne have "dropWhile ws (digits m @ rest) = digits m @ rest"
    by (cases "digits m") (auto simp: t)
  with pre have skip: "dropWhile ws (pre @ digits m @ rest) = digits m @ rest"
    by simp
  have hi: "\<not> uint_max TYPE('w) < int m"
  proof -
    have "uint v < 2 ^ LENGTH('w)"
      by (rule uint_lt2p)
    then show ?thesis
      unfolding m uint_max_def by linarith
  qed
  from get_decimal_uint_plain_digits [OF skip rest hi, of v0]
  show ?thesis by (simp add: t m)
qed

text \<open>At 16 bits and more the element overloads are the decimal ones.\<close>

lemma wide_put_get:
  assumes "16 \<le> LENGTH('w::len)"
  shows "put_int os (v :: 'w word) = os @ show_int (sint v)"
    and "put_uint os v = os @ show_int (uint v)"
    and "get_int ws is v = get_decimal_int ws is v"
    and "get_uint ws is v = get_decimal_uint ws is v"
  using assms by (simp_all add: put_int_def put_uint_def get_int_def get_uint_def)

text \<open>No extractor touches the exception mask.\<close>

lemma get_char_keeps_mask:
  "exc_fail (fst (get_char ws s v)) = exc_fail s \<and> exc_eof (fst (get_char ws s v)) = exc_eof s"
  by (simp add: get_char_def Let_def)


lemma get_decimal_uint_keeps_mask:
  "exc_fail (fst (get_decimal_uint ws s v)) = exc_fail s
   \<and> exc_eof (fst (get_decimal_uint ws s v)) = exc_eof s"
  by (simp add: get_decimal_uint_def Let_def)


lemma get_uint_keeps_mask:
  "exc_fail (fst (get_uint ws s v)) = exc_fail s \<and> exc_eof (fst (get_uint ws s v)) = exc_eof s"
  by (simp add: get_uint_def get_char_keeps_mask get_decimal_uint_keeps_mask)

lemma quiet_never_raises: "\<not> exc_fail s \<Longrightarrow> \<not> exc_eof s \<Longrightarrow> \<not> raises s"
  by (simp add: raises_def)

lemma setters_build_vector: "setZ (setY (setX B a) b) c = Vector3D a b c"
  by (simp add: setX_def setY_def setZ_def Vector3D_def)

lemma operator_out_wide:
  fixes A :: "'w::len word Vector3D"
  assumes "16 \<le> LENGTH('w)"
  shows "operator_out put_int os A =
           os @ show_int (sint (x_of A)) @ '', '' @ show_int (sint (y_of A)) @ '', ''
              @ show_int (sint (z_of A))"
    and "operator_out put_uint os A =
           os @ show_int (uint (x_of A)) @ '', '' @ show_int (uint (y_of A)) @ '', ''
              @ show_int (uint (z_of A))"
  by (simp_all add: operator_out_def wide_put_get [OF assms] put_str_def)

lemma strip_commas_text:
  "strip_commas (show_int a @ '', '' @ show_int b @ '', '' @ show_int c)
   = show_int a @ '' '' @ show_int b @ '' '' @ show_int c"
proof -
  have "filter (\<lambda>ch. ch \<noteq> CHR '','') (show_int i) = show_int i" for i
    using strip_commas_show_int [of i] by (simp add: strip_commas_def)
  then show ?thesis
    by (simp add: strip_commas_def)
qed

text \<open>
  Three values with a separator of white space between them, for any extractor that
  reads one value's text back, on a stream with an empty exception mask.
\<close>

lemma operator_in_three_tokens:
  assumes tok: "\<And>pre v rest v0. \<forall>ch\<in>set pre. ws ch \<Longrightarrow> rest = [] \<or> \<not> isdigit (hd rest) \<Longrightarrow>
      get (istream_of (pre @ text_of v @ rest)) v0
      = ((istream_of rest)\<lparr>eofbit := (rest = [])\<rparr>, v)"
    and sep: "\<forall>ch\<in>set sep. ws ch" "sep \<noteq> []" "\<not> isdigit (hd sep)"
  shows "operator_in get (istream_of (text_of a @ sep @ text_of b @ sep @ text_of c)) B x0 y0 z0
         = Returns ((istream_of [])\<lparr>eofbit := True\<rparr>) (Vector3D a b c)"
proof -
  let ?r2 = "sep @ text_of c"
  let ?r1 = "sep @ text_of b @ ?r2"
  from sep have r1: "?r1 = [] \<or> \<not> isdigit (hd ?r1)" and r2: "?r2 = [] \<or> \<not> isdigit (hd ?r2)"
    by simp_all
  from tok [where pre = "[]" and v = a and rest = ?r1 and ?v0.0 = x0, OF _ r1] sep
  have g1: "get (istream_of (text_of a @ ?r1)) x0 = (istream_of ?r1, a)"
    by (simp add: istream_of_def)
  from tok [where pre = sep and v = b and rest = ?r2 and ?v0.0 = y0, OF sep(1) r2] sep
  have g2: "get (istream_of ?r1) y0 = (istream_of ?r2, b)"
    by (simp add: istream_of_def)
  from tok [where pre = sep and v = c and rest = "[]" and ?v0.0 = z0, OF sep(1)]
  have g3: "get (istream_of ?r2) z0 = ((istream_of [])\<lparr>eofbit := True\<rparr>, c)"
    by simp
  have q: "\<not> raises (istream_of r)" "\<not> raises ((istream_of r)\<lparr>eofbit := True\<rparr>)" for r
    by (simp_all add: raises_def istream_of_def)
  show ?thesis
    by (simp add: operator_in_def g1 g2 g3 q setters_build_vector)
qed

lemma space_separates: "\<forall>ch\<in>set '' ''. isspace ch" "'' '' \<noteq> []" "\<not> isdigit (hd '' '')"
  by (simp_all add: isspace_def isdigit_def)

lemma comma_space_separates:
  "\<forall>ch\<in>set '', ''. isspace_or_comma ch" "'', '' \<noteq> []" "\<not> isdigit (hd '', '')"
  by (simp_all add: isspace_or_comma_def isspace_def isdigit_def)

section \<open>The extractors and inserters at work\<close>

text \<open>The decimal extractors on text that is not a value of the type.\<close>

lemma get_int_out_of_range_example:
  "get_int isspace (istream_of '' 99999999999 4'') (7 :: 32 word)
   = ((istream_of '' 4'')\<lparr>failbit := True\<rparr>, 2147483647)
   \<and> get_int isspace (istream_of ''-99999999999'') (7 :: 32 word)
   = ((istream_of [])\<lparr>failbit := True, eofbit := True\<rparr>, 2147483648)
   \<and> get_int isspace (istream_of ''-2147483648'') (7 :: 32 word)
   = ((istream_of [])\<lparr>eofbit := True\<rparr>, 2147483648)"
  by (simp add: get_int_def get_decimal_int_def istream_of_def isspace_def isdigit_def dec_def
      digit_val_def int_min_def int_max_def)

lemma get_int_no_text_example:
  "get_int isspace (istream_of ''   '') (7 :: 32 word)
   = ((istream_of [])\<lparr>failbit := True, eofbit := True\<rparr>, 7)
   \<and> get_int isspace (istream_of ''abc'') (7 :: 32 word)
   = ((istream_of ''abc'')\<lparr>failbit := True\<rparr>, 0)"
  by (simp add: get_int_def get_decimal_int_def istream_of_def isspace_def isdigit_def dec_def
      digit_val_def int_min_def int_max_def)

lemma get_uint_examples:
  "get_uint isspace (istream_of ''4294967295 x'') (7 :: 32 word)
   = (istream_of '' x'', 4294967295)
   \<and> get_uint isspace (istream_of ''4294967296'') (7 :: 32 word)
   = ((istream_of [])\<lparr>failbit := True, eofbit := True\<rparr>, 4294967295)
   \<and> get_uint isspace (istream_of ''-1'') (7 :: 32 word)
   = ((istream_of [])\<lparr>eofbit := True\<rparr>, 4294967295)"
  by (simp add: get_uint_def get_decimal_uint_def istream_of_def isspace_def isdigit_def dec_def
      digit_val_def uint_max_def)

text \<open>The 8-bit types are written and read as characters.\<close>

lemma char_codes:
  "char_of (32::nat) = CHR '' ''" "char_of (50::nat) = CHR ''2''" "char_of (51::nat) = CHR ''3''"
  "char_of (65::nat) = CHR ''A''"
  by code_simp+

lemma char_types_example:
  "put_uint [] (65 :: 8 word) = ''A''
   \<and> put_int [] (65 :: 8 word) = ''A''
   \<and> get_uint isspace (istream_of ''  7x'') (0 :: 8 word) = (istream_of ''x'', 55)
   \<and> get_int isspace (istream_of '' '') (9 :: 8 word)
     = ((istream_of [])\<lparr>failbit := True, eofbit := True\<rparr>, 9)"
  by (simp add: put_uint_def put_int_def put_char_def get_uint_def get_int_def get_char_def
      istream_of_def isspace_def char_codes)

text \<open>
  Read without help, the output format stops the reader at the first comma: \<open>x\<close> is read,
  \<open>y\<close> is the 0 of a failed conversion and \<open>z\<close> is whatever the local held.
\<close>

lemma operator_in_unstripped_example:
  "operator_in (get_int isspace) (istream_of ''12, -345, 0'') (Vector3D (1 :: 32 word) 2 3) 7 8 9
   = Returns ((istream_of '', -345, 0'')\<lparr>failbit := True\<rparr>) (Vector3D 12 0 9)"
  by (simp add: operator_in_def get_int_def get_decimal_int_def istream_of_def raises_def
      isspace_def isdigit_def dec_def digit_val_def int_min_def int_max_def setters_build_vector)

section \<open>Properties of the operations\<close>




text \<open>
  C3 as stated, for every pair of vectors of any element type, fails at
  \<^verbatim>\<open>Type = unsigned char\<close>. For \<open>A = (0,0,0)\<close> and \<open>B = (1,0,0)\<close>, \<open>distance\<close> squares the
  \<^verbatim>\<open>int\<close> difference \<open>-1\<close> and returns 1, while \<open>A - B\<close> is the vector \<open>(255,0,0)\<close>, whose
  \<open>module\<close> is 255.
\<close>

theorem distance_uchar_differs:
  "distance_uchar sqrt_int (Vector3D 0 0 0) (Vector3D 1 0 0) = 1
   \<and> operator_minus (Vector3D 0 0 0) (Vector3D 1 0 0) = Vector3D (255 :: 8 word) 0 0
   \<and> module_uchar sqrt_int (operator_minus (Vector3D 0 0 0) (Vector3D 1 0 0)) = 255
   \<and> distance_uchar sqrt_int (Vector3D 0 0 0) (Vector3D 1 0 0)
       \<noteq> module_uchar sqrt_int (operator_minus (Vector3D 0 0 0) (Vector3D 1 0 0))"
proof -
  have d: "distance_uchar sqrt_int (Vector3D 0 0 0) (Vector3D 1 0 0) = 1"
    by (simp add: distance_uchar_def sqrt_int_def)
  have m: "operator_minus (Vector3D 0 0 0) (Vector3D 1 0 0) = Vector3D (255 :: 8 word) 0 0"
    by (simp add: operator_minus_def)
  have "sqrt_int (255 * 255) = real_of_int 255"
    by (rule sqrt_int_square) simp
  then have "module_uchar sqrt_int (Vector3D (255 :: 8 word) 0 0) = 255"
    by (simp add: module_uchar_def Vector3D_def)
  with d m show ?thesis
    by simp
qed

text \<open>
  C3, amended. For every pair of vectors \<open>A\<close>, \<open>B\<close> of an element type at least as wide
  as \<^verbatim>\<open>int\<close>, whose arithmetic is done in the element type itself, \<open>distance A B\<close>,
  computed directly as the square root of the sum of the squared component differences,
  is \<open>module\<close> of the difference vector \<open>A - B\<close>, whatever the library's \<^verbatim>\<open>sqrt\<close> computes.
\<close>

theorem distance_is_module_of_difference:
  fixes A B :: "'a::comm_ring_1 Vector3D" and sqrt_T :: "'a \<Rightarrow> 'd"
  shows "distance sqrt_T A B = module sqrt_T (operator_minus A B)"
  by (simp add: distance_def module_def operator_minus_def Vector3D_def)

text \<open>
  C4. For every pair of vectors \<open>A\<close>, \<open>B\<close>, \<open>crossProduct A B\<close> has the components
  \<open>A.y*B.z - A.z*B.y\<close>, \<open>A.z*B.x - A.x*B.z\<close> and \<open>A.x*B.y - A.y*B.x\<close>; and
  \<open>crossProduct (1,0,0) (0,1,0) == (0,0,1)\<close>.
\<close>

theorem crossProduct_components:
  fixes A B :: "'a::comm_ring_1 Vector3D"
  shows "x_of (crossProduct A B) = y_of A * z_of B - z_of A * y_of B
         \<and> y_of (crossProduct A B) = z_of A * x_of B - x_of A * z_of B
         \<and> z_of (crossProduct A B) = x_of A * y_of B - y_of A * x_of B
         \<and> operator_eq (crossProduct (Vector3D 1 0 0) (Vector3D 0 1 0))
                        (Vector3D 0 0 (1::'a))"
  by (simp add: crossProduct_def operator_eq_def)

text \<open>
  C6. For every pair of vectors \<open>A\<close>, \<open>B\<close>, \<open>crossProduct A B == -1 * crossProduct B A\<close>,
  with the scalar-times-vector product on the right.
\<close>

theorem crossProduct_anticommutative:
  fixes A B :: "'a::comm_ring_1 Vector3D"
  shows "operator_eq (crossProduct A B) (operator_times_sv (- 1) (crossProduct B A))"
  by (simp add: operator_eq_def crossProduct_def operator_times_sv_def mult.commute)

text \<open>
  C7. For every pair of vectors \<open>A\<close>, \<open>B\<close> of integer element type,
  \<open>(A - B) + B == A\<close> holds exactly.
\<close>

theorem minus_then_plus_restores:
  fixes A B :: "'a::comm_ring_1 Vector3D"
  shows "operator_eq (operator_plus (operator_minus A B) B) A"
  by (simp add: operator_eq_def operator_plus_def operator_minus_def)

text \<open>
  C8. For every vector \<open>A\<close> and scalar \<open>s\<close> of the element type, \<open>s * A == A * s\<close>: the
  two overloads give the same vector. Nothing is asked of the element type's
  multiplication.
\<close>

theorem scalar_times_either_order:
  fixes A :: "'a::times Vector3D" and s :: 'a
  shows "operator_eq (operator_times_sv s A) (operator_times_vs A s)
         \<and> operator_times_sv s A = operator_times_vs A s"
  by (simp add: operator_eq_def operator_times_sv_def operator_times_vs_def)

text \<open>
  C9. For every vector and every value \<open>v\<close> of the element type, \<open>setX\<close> makes the
  \<open>x\<close> component \<open>v\<close> and leaves \<open>y\<close> and \<open>z\<close> as they were; \<open>setY\<close> and \<open>setZ\<close> do the
  same for their component. No value of \<open>v\<close> is refused.
\<close>

theorem setters_replace_one_component:
  fixes A :: "'a Vector3D" and v :: 'a
  shows "x_of (setX A v) = v \<and> y_of (setX A v) = y_of A \<and> z_of (setX A v) = z_of A
       \<and> x_of (setY A v) = x_of A \<and> y_of (setY A v) = v \<and> z_of (setY A v) = z_of A
       \<and> x_of (setZ A v) = x_of A \<and> y_of (setZ A v) = y_of A \<and> z_of (setZ A v) = v"
  by (simp add: setX_def setY_def setZ_def x_of_def y_of_def z_of_def)

section \<open>Properties of the stream operators\<close>

text \<open>
  C5 as stated, for every integer element type, fails at \<^verbatim>\<open>Type = unsigned char\<close>, which
  the library writes and reads as a character. The vector \<open>(32,50,51)\<close> is written as a
  space, the digit 2 and the digit 3 with the separators between them. Reading that back,
  with the commas deleted or counted as white space, skips the space: \<open>x\<close> and \<open>y\<close> become
  the codes of the two digits, the third extraction finds the end of the text, and the
  read fails.
\<close>

theorem write_then_read_uchar_fails:
  "operator_out put_uint [] (Vector3D (32 :: 8 word) 50 51) = '' , 2, 3''
   \<and> operator_in (get_uint isspace)
         (istream_of (strip_commas (operator_out put_uint [] (Vector3D (32 :: 8 word) 50 51))))
         (Vector3D (0 :: 8 word) 0 0) 7 8 9
       = Returns \<lparr>buf = [], failbit = True, eofbit = True, exc_fail = False, exc_eof = False\<rparr>
           (Vector3D 50 51 9)
   \<and> operator_in (get_uint isspace_or_comma)
         (istream_of (operator_out put_uint [] (Vector3D (32 :: 8 word) 50 51)))
         (Vector3D (0 :: 8 word) 0 0) 7 8 9
       = Returns \<lparr>buf = [], failbit = True, eofbit = True, exc_fail = False, exc_eof = False\<rparr>
           (Vector3D 50 51 9)
   \<and> \<not> operator_eq (Vector3D (50 :: 8 word) 51 9) (Vector3D 32 50 51)"
proof -
  have w: "operator_out put_uint [] (Vector3D (32 :: 8 word) 50 51) = '' , 2, 3''"
    by (simp add: operator_out_def put_str_def put_uint_def put_char_def char_codes)
  have s: "strip_commas '' , 2, 3'' = ''  2 3''"
    by (simp add: strip_commas_def)
  have r1: "operator_in (get_uint isspace) (istream_of ''  2 3'') (Vector3D (0 :: 8 word) 0 0) 7 8 9
      = Returns \<lparr>buf = [], failbit = True, eofbit = True, exc_fail = False, exc_eof = False\<rparr>
          (Vector3D 50 51 9)"
    by (simp add: operator_in_def get_uint_def get_char_def istream_of_def raises_def
        isspace_def setters_build_vector)
  have r2: "operator_in (get_uint isspace_or_comma) (istream_of '' , 2, 3'')
        (Vector3D (0 :: 8 word) 0 0) 7 8 9
      = Returns \<lparr>buf = [], failbit = True, eofbit = True, exc_fail = False, exc_eof = False\<rparr>
          (Vector3D 50 51 9)"
    by (simp add: operator_in_def get_uint_def get_char_def istream_of_def raises_def
        isspace_or_comma_def isspace_def setters_build_vector)
  show ?thesis
    by (simp add: w s r1 r2 operator_eq_def)
qed

text \<open>
  C5, amended. For every vector \<open>A\<close> of an integer element type that the library writes
  and reads as a number, signed or unsigned, of 16 bits or more (so not a character
  type): write \<open>A\<close> with the stream output operator, which gives the text \<open>x, y, z\<close>;
  then read it with the stream input operator from a fresh stream, with the commas
  either deleted from the text or counted as white space by the reader. The operator
  returns, the read has succeeded and used up the text, and the vector equals \<open>A\<close>,
  whatever the target vector and the locals held before.
\<close>

theorem write_then_read_restores:
  fixes A B :: "'w::len word Vector3D"
  assumes wide: "16 \<le> LENGTH('w)"
  shows "operator_in (get_int isspace) (istream_of (strip_commas (operator_out put_int [] A)))
           B x0 y0 z0
         = Returns \<lparr>buf = [], failbit = False, eofbit = True, exc_fail = False, exc_eof = False\<rparr> A
       \<and> operator_in (get_int isspace_or_comma) (istream_of (operator_out put_int [] A))
           B x0 y0 z0
         = Returns \<lparr>buf = [], failbit = False, eofbit = True, exc_fail = False, exc_eof = False\<rparr> A
       \<and> operator_in (get_uint isspace) (istream_of (strip_commas (operator_out put_uint [] A)))
           B x0 y0 z0
         = Returns \<lparr>buf = [], failbit = False, eofbit = True, exc_fail = False, exc_eof = False\<rparr> A
       \<and> operator_in (get_uint isspace_or_comma) (istream_of (operator_out put_uint [] A))
           B x0 y0 z0
         = Returns \<lparr>buf = [], failbit = False, eofbit = True, exc_fail = False, exc_eof = False\<rparr> A"
proof -
  let ?fin = "(istream_of [])\<lparr>eofbit := True\<rparr>"
  let ?a = "x_of A" and ?b = "y_of A" and ?c = "z_of A"
  have gi: "get_int ws = (get_decimal_int ws :: istream \<Rightarrow> 'w word \<Rightarrow> istream \<times> 'w word)"
    and gu: "get_uint ws = (get_decimal_uint ws :: istream \<Rightarrow> 'w word \<Rightarrow> istream \<times> 'w word)"
    for ws
    by (intro ext, simp add: wide_put_get [OF wide])+
  have "operator_in (get_decimal_int isspace)
          (istream_of (show_int (sint ?a) @ '' '' @ show_int (sint ?b) @ '' '' @ show_int (sint ?c)))
          B x0 y0 z0 = Returns ?fin (Vector3D ?a ?b ?c)"
    by (rule operator_in_three_tokens [where text_of = "\<lambda>v. show_int (sint v)",
          OF _ space_separates])
      (rule get_decimal_int_show_int [where ws = isspace, OF _ hd_show_int_not_space(1)])
  then have s1: "operator_in (get_int isspace)
      (istream_of (strip_commas (operator_out put_int [] A))) B x0 y0 z0 = Returns ?fin A"
    by (simp only: gi operator_out_wide [OF wide] append_Nil strip_commas_text Vector3D_getters)
  have "operator_in (get_decimal_int isspace_or_comma)
          (istream_of (show_int (sint ?a) @ '', '' @ show_int (sint ?b) @ '', '' @ show_int (sint ?c)))
          B x0 y0 z0 = Returns ?fin (Vector3D ?a ?b ?c)"
    by (rule operator_in_three_tokens [where text_of = "\<lambda>v. show_int (sint v)",
          OF _ comma_space_separates])
      (rule get_decimal_int_show_int [where ws = isspace_or_comma,
          OF _ hd_show_int_not_space(2)])
  then have s2: "operator_in (get_int isspace_or_comma)
      (istream_of (operator_out put_int [] A)) B x0 y0 z0 = Returns ?fin A"
    by (simp only: gi operator_out_wide [OF wide] append_Nil Vector3D_getters)
  have "operator_in (get_decimal_uint isspace)
          (istream_of (show_int (uint ?a) @ '' '' @ show_int (uint ?b) @ '' '' @ show_int (uint ?c)))
          B x0 y0 z0 = Returns ?fin (Vector3D ?a ?b ?c)"
    by (rule operator_in_three_tokens [where text_of = "\<lambda>v. show_int (uint v)",
          OF _ space_separates])
      (rule get_decimal_uint_show_int [where ws = isspace, OF _ hd_show_int_not_space(1)])
  then have u1: "operator_in (get_uint isspace)
      (istream_of (strip_commas (operator_out put_uint [] A))) B x0 y0 z0 = Returns ?fin A"
    by (simp only: gu operator_out_wide [OF wide] append_Nil strip_commas_text Vector3D_getters)
  have "operator_in (get_decimal_uint isspace_or_comma)
          (istream_of (show_int (uint ?a) @ '', '' @ show_int (uint ?b) @ '', '' @ show_int (uint ?c)))
          B x0 y0 z0 = Returns ?fin (Vector3D ?a ?b ?c)"
    by (rule operator_in_three_tokens [where text_of = "\<lambda>v. show_int (uint v)",
          OF _ comma_space_separates])
      (rule get_decimal_uint_show_int [where ws = isspace_or_comma,
          OF _ hd_show_int_not_space(2)])
  then have u2: "operator_in (get_uint isspace_or_comma)
      (istream_of (operator_out put_uint [] A)) B x0 y0 z0 = Returns ?fin A"
    by (simp only: gu operator_out_wide [OF wide] append_Nil Vector3D_getters)
  have fin: "?fin = \<lparr>buf = [], failbit = False, eofbit = True, exc_fail = False, exc_eof = False\<rparr>"
    by (simp add: istream_of_def)
  from s1 s2 u1 u2 show ?thesis
    by (simp add: fin)
qed

theorem write_then_read_restores_witness:
  "16 \<le> LENGTH(32)
   \<and> operator_out put_int [] (Vector3D (12 :: 32 word) (- 345) 0) = ''12, -345, 0''
   \<and> operator_in (get_int isspace) (istream_of ''12 -345 0'') (Vector3D 1 2 3) 7 8 9
       = Returns \<lparr>buf = [], failbit = False, eofbit = True, exc_fail = False, exc_eof = False\<rparr>
           (Vector3D (12 :: 32 word) (- 345) 0)
   \<and> operator_in (get_int isspace_or_comma) (istream_of ''12, -345, 0'') (Vector3D 1 2 3) 7 8 9
       = Returns \<lparr>buf = [], failbit = False, eofbit = True, exc_fail = False, exc_eof = False\<rparr>
           (Vector3D (12 :: 32 word) (- 345) 0)
   \<and> operator_out put_uint [] (Vector3D (12 :: 32 word) (- 345) 0) = ''12, 4294966951, 0''
   \<and> operator_in (get_uint isspace) (istream_of ''12 4294966951 0'') (Vector3D 1 2 3) 7 8 9
       = Returns \<lparr>buf = [], failbit = False, eofbit = True, exc_fail = False, exc_eof = False\<rparr>
           (Vector3D (12 :: 32 word) (- 345) 0)
   \<and> operator_in (get_uint isspace_or_comma) (istream_of ''12, 4294966951, 0'')
         (Vector3D 1 2 3) 7 8 9
       = Returns \<lparr>buf = [], failbit = False, eofbit = True, exc_fail = False, exc_eof = False\<rparr>
           (Vector3D (12 :: 32 word) (- 345) 0)"
proof -
  have wide: "16 \<le> LENGTH(32)" by simp
  have w: "operator_out put_int [] (Vector3D (12 :: 32 word) (- 345) 0) = ''12, -345, 0''"
    by (simp add: operator_out_def put_int_def put_str_def show_int_def digits.simps
        digit_char_def)
  have u: "operator_out put_uint [] (Vector3D (12 :: 32 word) (- 345) 0) = ''12, 4294966951, 0''"
    by (simp add: operator_out_def put_uint_def put_str_def show_int_def digits.simps
        digit_char_def)
  have s: "strip_commas ''12, -345, 0'' = ''12 -345 0''"
    "strip_commas ''12, 4294966951, 0'' = ''12 4294966951 0''"
    by (simp_all add: strip_commas_def)
  from write_then_read_restores [OF wide, of "Vector3D (12 :: 32 word) (- 345) 0"
      "Vector3D 1 2 3" 7 8 9]
  show ?thesis
    by (simp add: w u s)
qed




end
